theory Spec2Isabelle
  imports Main "HOL-Library.Word" "HOL-Library.Product_Lexorder"
begin

section \<open>Data model of the Ethereum chain composition (chains/ethereum/chain.go)\<close>

text \<open>
  Go values are modelled as follows. A \<^verbatim>\<open>*big.Int\<close> is an \<^typ>\<open>int\<close>, a
  \<^verbatim>\<open>common.Address\<close> and every Go string is a \<^typ>\<open>string\<close>, a Go \<^verbatim>\<open>error\<close>
  is a value of the datatype \<open>error\<close>, and a pair \<^verbatim>\<open>(*T, error)\<close> returned by a
  function is a pair of options, \<open>None\<close> standing for \<^verbatim>\<open>nil\<close>. A function of the
  repository that chain.go calls but whose body is not part of the translated sources
  is a field of the record \<open>World\<close>, so every theorem holds for each behaviour such a
  function can have.
\<close>

text \<open>\<^verbatim>\<open>msg.ChainId\<close> is declared outside the translated sources; chain ids are
  natural numbers here.\<close>

type_synonym ChainId = nat
type_synonym Address = string
type_synonym Logger = string
type_synonym Client = nat

datatype error = ConfigurationError string | Error string

datatype 'a outcome = Returned 'a | Panicked

record ChainConfig =
  Name :: string
  Id :: ChainId
  Insecure :: bool

record Config =
  id_cfg :: ChainId
  from_cfg :: string
  keystorePath :: string
  blockstorePath :: string
  freshStart :: bool
  bridgeContract :: Address
  erc20HandlerContract :: Address
  genericHandlerContract :: Address
  startBlock :: int

datatype KeyType = EthChain | SubChain

record Keypair =
  Address :: string

datatype CryptoKeypair = Secp256k1 Keypair | Sr25519 string

record Blockstore =
  bs_path :: string
  bs_chain :: ChainId
  bs_relayer :: string

record Connection =
  conn_cfg :: Config
  conn_kp :: "Keypair option"
  conn_log :: Logger
  conn_conn :: "Client option"

datatype Bridge = Bridge Address "Client option"

datatype ERC20Handler = ERC20Handler Address "Client option"

type_synonym RouterRef = nat

text \<open>
  The declarations of Connection, Listener and Writer are not part of the translated
  sources. The records hold what chain.go and the listener test pass to their
  constructors and setters and read from them; the constructors and setters store
  their arguments.
\<close>

record Listener =
  l_cfg :: Config
  l_conn :: Connection
  l_log :: Logger
  l_blockstore :: "Blockstore option"
  l_bridgeContract :: "Bridge option"
  l_erc20HandlerContract :: "ERC20Handler option"
  l_router :: "RouterRef option"

record Writer =
  w_cfg :: Config
  w_conn :: Connection
  w_log :: Logger
  w_bridgeContract :: "Bridge option"

record Chain =
  cfg :: ChainConfig
  conn :: Connection
  listener :: Listener
  writer :: Writer

record World =
  parseChainConfig :: "ChainConfig \<Rightarrow> error + Config"
  KeypairFromAddress :: "string \<Rightarrow> KeyType \<Rightarrow> string \<Rightarrow> bool \<Rightarrow> error + CryptoKeypair"
  NewBlockstore :: "string \<Rightarrow> ChainId \<Rightarrow> string \<Rightarrow> error + Blockstore"
  TryLoadLatestBlock :: "Blockstore \<Rightarrow> error + int"
  Connect :: "Connection \<Rightarrow> Connection \<times> error option"
  ensureHasBytecode :: "Connection \<Rightarrow> Address \<Rightarrow> error option"
  NewBridge :: "Address \<Rightarrow> Client option \<Rightarrow> error + Bridge"
  NewERC20Handler :: "Address \<Rightarrow> Client option \<Rightarrow> error + ERC20Handler"

subsection \<open>setupBlockstore\<close>

text \<open>\<^verbatim>\<open>x.Cmp(y)\<close> of math/big: \<open>-1\<close>, \<open>0\<close> or \<open>1\<close>.\<close>

definition Cmp :: "int \<Rightarrow> int \<Rightarrow> int" where
  "Cmp x y = (if x < y then - 1 else if x = y then 0 else 1)"

text \<open>
  \<^verbatim>\<open>cfg\<close> is a pointer that setupBlockstore writes through, so the model returns the
  configuration after the call next to the two results. The keypair is the result of
  the type assertion in InitializeChain and is \<^verbatim>\<open>nil\<close> when that assertion fails;
  \<^verbatim>\<open>kp.Address()\<close> then dereferences \<^verbatim>\<open>nil\<close>.
\<close>

definition setupBlockstore ::
  "World \<Rightarrow> Config \<Rightarrow> Keypair option \<Rightarrow> (Config \<times> Blockstore option \<times> error option) outcome" where
  "setupBlockstore w c kp =
     (case kp of
        None \<Rightarrow> Panicked
      | Some k \<Rightarrow>
          (case NewBlockstore w (blockstorePath c) (id_cfg c) (Address k) of
             Inl err \<Rightarrow> Returned (c, None, Some err)
           | Inr bs \<Rightarrow>
               if \<not> freshStart c then
                 (case TryLoadLatestBlock w bs of
                    Inl err \<Rightarrow> Returned (c, None, Some err)
                  | Inr latestBlock \<Rightarrow>
                      if Cmp latestBlock (startBlock c) = 1
                      then Returned (c\<lparr>startBlock := latestBlock\<rparr>, Some bs, None)
                      else Returned (c, Some bs, None))
               else Returned (c, Some bs, None)))"

subsection \<open>Constructors and setters\<close>

definition NewConnection :: "Config \<Rightarrow> Keypair option \<Rightarrow> Logger \<Rightarrow> Connection" where
  "NewConnection c kp lg = \<lparr>conn_cfg = c, conn_kp = kp, conn_log = lg, conn_conn = None\<rparr>"

definition NewListener :: "Connection \<Rightarrow> Config \<Rightarrow> Logger \<Rightarrow> Blockstore option \<Rightarrow> Listener" where
  "NewListener cn c lg bs =
     \<lparr>l_cfg = c, l_conn = cn, l_log = lg, l_blockstore = bs, l_bridgeContract = None,
      l_erc20HandlerContract = None, l_router = None\<rparr>"

definition SetContracts :: "Listener \<Rightarrow> Bridge option \<Rightarrow> ERC20Handler option \<Rightarrow> Listener" where
  "SetContracts l b e = l\<lparr>l_bridgeContract := b, l_erc20HandlerContract := e\<rparr>"

definition NewWriter :: "Connection \<Rightarrow> Config \<Rightarrow> Logger \<Rightarrow> Writer" where
  "NewWriter cn c lg = \<lparr>w_cfg = c, w_conn = cn, w_log = lg, w_bridgeContract = None\<rparr>"

definition SetContract :: "Writer \<Rightarrow> Bridge option \<Rightarrow> Writer" where
  "SetContract wr b = wr\<lparr>w_bridgeContract := b\<rparr>"

definition createBridgeContract :: "World \<Rightarrow> Address \<Rightarrow> Connection \<Rightarrow> error + Bridge" where
  "createBridgeContract w addr cn = NewBridge w addr (conn_conn cn)"

definition createErc20HandlerContract :: "World \<Rightarrow> Address \<Rightarrow> Connection \<Rightarrow> error + ERC20Handler" where
  "createErc20HandlerContract w addr cn = NewERC20Handler w addr (conn_conn cn)"

subsection \<open>InitializeChain\<close>

text \<open>
  The calls InitializeChain makes to its collaborators, in the order it makes them, are
  recorded next to its result: \<open>logged c r\<close> puts the call \<open>c\<close> in front of the
  calls of the rest \<open>r\<close> of the function body.
\<close>

datatype call =
    CallParseChainConfig
  | CallKeypairFromAddress
  | CallSetupBlockstore
  | CallConnect
  | CallEnsureHasBytecode Address
  | CallCreateBridgeContract Address
  | CallCreateErc20HandlerContract Address
  | CallListenerStart
  | CallWriterStart
  | CallListenerStop
  | CallWriterStop
  | CallConnectionClose
  | CallLogDebug string

definition logged :: "call \<Rightarrow> call list \<times> 'a \<Rightarrow> call list \<times> 'a" where
  "logged c r = (c # fst r, snd r)"

text \<open>The type assertion \<^verbatim>\<open>kp, _ := kpI.(*secp256k1.Keypair)\<close>: \<^verbatim>\<open>nil\<close> on any
  other dynamic type.\<close>

definition asSecp256k1 :: "CryptoKeypair \<Rightarrow> Keypair option" where
  "asSecp256k1 kpI = (case kpI of Secp256k1 k \<Rightarrow> Some k | Sr25519 s \<Rightarrow> None)"

definition InitializeChain ::
  "World \<Rightarrow> ChainConfig \<Rightarrow> Logger \<Rightarrow> call list \<times> (Chain option \<times> error option) outcome" where
  "InitializeChain w chainCfg logger =
     logged CallParseChainConfig
     (case parseChainConfig w chainCfg of
        Inl err \<Rightarrow> ([], Returned (None, Some err))
      | Inr c0 \<Rightarrow>
     logged CallKeypairFromAddress
     (case KeypairFromAddress w (from_cfg c0) EthChain (keystorePath c0) (Insecure chainCfg) of
        Inl err \<Rightarrow> ([], Returned (None, Some err))
      | Inr kpI \<Rightarrow>
     logged CallSetupBlockstore
     (case setupBlockstore w c0 (asSecp256k1 kpI) of
        Panicked \<Rightarrow> ([], Panicked)
      | Returned (c, bs, Some err) \<Rightarrow> ([], Returned (None, Some err))
      | Returned (c, bs, None) \<Rightarrow>
     logged CallConnect
     (case Connect w (NewConnection c (asSecp256k1 kpI) logger) of
        (cn, Some err) \<Rightarrow> ([], Returned (None, Some err))
      | (cn, None) \<Rightarrow>
     logged (CallEnsureHasBytecode (bridgeContract c))
     (case ensureHasBytecode w cn (bridgeContract c) of
        Some err \<Rightarrow> ([], Returned (None, Some err))
      | None \<Rightarrow>
     logged (CallEnsureHasBytecode (erc20HandlerContract c))
     (case ensureHasBytecode w cn (erc20HandlerContract c) of
        Some err \<Rightarrow> ([], Returned (None, Some err))
      | None \<Rightarrow>
     logged (CallEnsureHasBytecode (genericHandlerContract c))
     (case ensureHasBytecode w cn (genericHandlerContract c) of
        Some err \<Rightarrow> ([], Returned (None, Some err))
      | None \<Rightarrow>
     logged (CallCreateBridgeContract (bridgeContract c))
     (case createBridgeContract w (bridgeContract c) cn of
        Inl err \<Rightarrow> ([], Returned (None, Some err))
      | Inr bridgeC \<Rightarrow>
     logged (CallCreateErc20HandlerContract (erc20HandlerContract c))
     (case createErc20HandlerContract w (erc20HandlerContract c) cn of
        Inl err \<Rightarrow> ([], Returned (None, Some err))
      | Inr erc20HandlerC \<Rightarrow>
          ([], Returned
             (Some \<lparr>cfg = chainCfg, conn = cn,
                listener = SetContracts (NewListener cn c logger bs) (Some bridgeC) (Some erc20HandlerC),
                writer = SetContract (NewWriter cn c logger) (Some bridgeC)\<rparr>,
              None)))))))))))"

text \<open>
  Modelled from the spec: Connection.ensureHasBytecode is not part of the translated
  sources. The spec (4.3, byte-code presence check) says that the Connection verifies
  that the target address holds deployed code and fails with a ConfigurationError when
  it does not. \<open>code\<close> gives the bytecode the chain holds at each address.
\<close>

definition ensureHasBytecode_spec :: "(Address \<Rightarrow> nat list) \<Rightarrow> Connection \<Rightarrow> Address \<Rightarrow> error option" where
  "ensureHasBytecode_spec code cn addr =
     (if code addr = [] then Some (ConfigurationError (''no bytecode found at '' @ addr))
      else None)"

definition isBytecodeCheck :: "call \<Rightarrow> bool" where
  "isBytecodeCheck c = (case c of CallEnsureHasBytecode a \<Rightarrow> True | _ \<Rightarrow> False)"

definition isBindingCreation :: "call \<Rightarrow> bool" where
  "isBindingCreation c =
     (case c of CallCreateBridgeContract a \<Rightarrow> True
      | CallCreateErc20HandlerContract a \<Rightarrow> True | _ \<Rightarrow> False)"

text \<open>\<open>allBefore P Q cs\<close>: in \<open>cs\<close> no call satisfying \<open>P\<close> comes after a call
  satisfying \<open>Q\<close>.\<close>

fun allBefore :: "('a \<Rightarrow> bool) \<Rightarrow> ('a \<Rightarrow> bool) \<Rightarrow> 'a list \<Rightarrow> bool" where
  "allBefore P Q [] = True"
| "allBefore P Q (x # xs) = ((if Q x then list_all (\<lambda>y. \<not> P y) xs else True) \<and> allBefore P Q xs)"

subsection \<open>Chain lifecycle: SetRouter, Start, Stop\<close>

text \<open>
  The Start and Stop methods of Listener and Writer, Connection.Close and Router.Listen
  are not part of the translated sources: they are the fields of \<open>Tasks\<close>. A method
  with a pointer receiver returns the receiver after the call next to its result.
  A \<^verbatim>\<open>*router.Router\<close> is a reference into a store of routers, since the chains
  and their listeners share one router.
\<close>

record Router =
  registry :: "ChainId \<rightharpoonup> Writer"

record Tasks =
  Listener_Start :: "Listener \<Rightarrow> Listener \<times> error option"
  Writer_Start :: "Writer \<Rightarrow> Writer \<times> error option"
  Listener_Stop :: "Listener \<Rightarrow> Listener \<times> error option"
  Writer_Stop :: "Writer \<Rightarrow> Writer \<times> error option"
  Connection_Close :: "Connection \<Rightarrow> Connection"
  Router_Listen :: "Router \<Rightarrow> ChainId \<Rightarrow> Writer \<Rightarrow> Router outcome"

definition Listener_SetRouter :: "Listener \<Rightarrow> RouterRef \<Rightarrow> Listener" where
  "Listener_SetRouter l r = l\<lparr>l_router := Some r\<rparr>"

text \<open>\<^verbatim>\<open>r.Listen\<close> dereferences \<^verbatim>\<open>r\<close>: a reference that is not in the store
  (\<^verbatim>\<open>nil\<close>) panics.\<close>

definition Chain_SetRouter ::
  "Tasks \<Rightarrow> Chain \<Rightarrow> RouterRef \<Rightarrow> (RouterRef \<rightharpoonup> Router) \<Rightarrow> (Chain \<times> (RouterRef \<rightharpoonup> Router)) outcome" where
  "Chain_SetRouter t c r h =
     (case h r of
        None \<Rightarrow> Panicked
      | Some ro \<Rightarrow>
          (case Router_Listen t ro (Id (cfg c)) (writer c) of
             Panicked \<Rightarrow> Panicked
           | Returned ro' \<Rightarrow>
               Returned (c\<lparr>listener := Listener_SetRouter (listener c) r\<rparr>, h(r \<mapsto> ro'))))"

definition Chain_Start :: "Tasks \<Rightarrow> Chain \<Rightarrow> call list \<times> Chain \<times> error option" where
  "Chain_Start t c =
     (case Listener_Start t (listener c) of
        (l', Some err) \<Rightarrow> ([CallListenerStart], c\<lparr>listener := l'\<rparr>, Some err)
      | (l', None) \<Rightarrow>
          (case Writer_Start t (writer c) of
             (w', Some err) \<Rightarrow>
               ([CallListenerStart, CallWriterStart], c\<lparr>listener := l', writer := w'\<rparr>, Some err)
           | (w', None) \<Rightarrow>
               ([CallListenerStart, CallWriterStart, CallLogDebug ''Successfully started chain''],
                c\<lparr>listener := l', writer := w'\<rparr>, None)))"

definition Chain_Id :: "Chain \<Rightarrow> ChainId" where
  "Chain_Id c = Id (cfg c)"

definition Chain_Name :: "Chain \<Rightarrow> string" where
  "Chain_Name c = Name (cfg c)"

definition GetWriter :: "Chain \<Rightarrow> Writer" where
  "GetWriter c = writer c"

definition Chain_Stop :: "Tasks \<Rightarrow> Chain \<Rightarrow> call list \<times> Chain \<times> error option" where
  "Chain_Stop t c =
     (case Listener_Stop t (listener c) of
        (l', Some err) \<Rightarrow> ([CallListenerStop], c\<lparr>listener := l'\<rparr>, Some err)
      | (l', None) \<Rightarrow>
          (case Writer_Stop t (writer c) of
             (w', Some err) \<Rightarrow>
               ([CallListenerStop, CallWriterStop], c\<lparr>listener := l', writer := w'\<rparr>, Some err)
           | (w', None) \<Rightarrow>
               ([CallListenerStop, CallWriterStop, CallConnectionClose],
                c\<lparr>listener := l', writer := w', conn := Connection_Close t (conn c)\<rparr>, None)))"

text \<open>
  Modelled from the spec: Router.Listen is not part of the translated sources. The spec
  (4.4) says that \<open>Listen(chainId, writer)\<close> registers the writer for the chain id
  and fails, as a panic would, on a duplicate registration.
\<close>

definition Listen_spec :: "Router \<Rightarrow> ChainId \<Rightarrow> Writer \<Rightarrow> Router outcome" where
  "Listen_spec ro i wr =
     (case registry ro i of
        Some other \<Rightarrow> Panicked
      | None \<Rightarrow> Returned (ro\<lparr>registry := (registry ro)(i \<mapsto> wr)\<rparr>))"

subsection \<open>Example values\<close>

definition exConfig :: Config where
  "exConfig = \<lparr>id_cfg = 0, from_cfg = ''0xA11CE'', keystorePath = ''keys'',
     blockstorePath = ''blockstore'', freshStart = False, bridgeContract = ''0xB1'',
     erc20HandlerContract = ''0xE2'', genericHandlerContract = ''0xC3'', startBlock = 5\<rparr>"

definition exKeypair :: Keypair where
  "exKeypair = \<lparr>Address = ''0xA11CE''\<rparr>"

definition exCode :: "Address \<Rightarrow> nat list" where
  "exCode a = (if a = ''0xDEAD'' then [] else [96, 128])"

definition exConnect :: "Connection \<Rightarrow> Connection \<times> error option" where
  "exConnect c = (c\<lparr>conn_conn := Some 1\<rparr>, None)"

text \<open>A world where every collaborator succeeds, the stored checkpoint is block 9 and
  every address holds the two bytes of code \<open>[96, 128]\<close>, except the address 0xDEAD.\<close>

definition exWorld :: World where
  "exWorld = \<lparr>
     parseChainConfig = (\<lambda>cc. Inr (exConfig\<lparr>id_cfg := Id cc\<rparr>)),
     KeypairFromAddress = (\<lambda>a t p i. Inr (Secp256k1 \<lparr>Address = a\<rparr>)),
     NewBlockstore = (\<lambda>p i a. Inr \<lparr>bs_path = p, bs_chain = i, bs_relayer = a\<rparr>),
     TryLoadLatestBlock = (\<lambda>bs. Inr 9),
     Connect = exConnect,
     ensureHasBytecode = ensureHasBytecode_spec exCode,
     NewBridge = (\<lambda>a b. Inr (Bridge a b)),
     NewERC20Handler = (\<lambda>a b. Inr (ERC20Handler a b))\<rparr>"

definition exChainConfig :: ChainConfig where
  "exChainConfig = \<lparr>Name = ''ethereum'', Id = 0, Insecure = True\<rparr>"

text \<open>The same world with an ERC20 handler address that holds no code.\<close>

definition exNoCodeWorld :: World where
  "exNoCodeWorld =
     exWorld\<lparr>parseChainConfig := (\<lambda>cc. Inr (exConfig\<lparr>erc20HandlerContract := ''0xDEAD''\<rparr>))\<rparr>"

definition exConnection :: Connection where
  "exConnection = \<lparr>conn_cfg = exConfig, conn_kp = Some exKeypair, conn_log = ''log'',
     conn_conn = Some 1\<rparr>"

definition exChain :: Chain where
  "exChain = \<lparr>cfg = exChainConfig, conn = exConnection,
     listener = SetContracts (NewListener exConnection exConfig ''log'' None)
       (Some (Bridge ''0xB1'' (Some 1))) (Some (ERC20Handler ''0xE2'' (Some 1))),
     writer = SetContract (NewWriter exConnection exConfig ''log'') (Some (Bridge ''0xB1'' (Some 1)))\<rparr>"

text \<open>Tasks that start and stop without error, and tasks whose listener fails.\<close>

definition exTasks :: Tasks where
  "exTasks = \<lparr>
     Listener_Start = (\<lambda>l. (l, None)),
     Writer_Start = (\<lambda>wr. (wr, None)),
     Listener_Stop = (\<lambda>l. (l, None)),
     Writer_Stop = (\<lambda>wr. (wr, None)),
     Connection_Close = (\<lambda>cn. cn\<lparr>conn_conn := None\<rparr>),
     Router_Listen = Listen_spec\<rparr>"

definition exFailingTasks :: Tasks where
  "exFailingTasks = exTasks\<lparr>
     Listener_Start := (\<lambda>l. (l, Some (Error ''listener start''))),
     Listener_Stop := (\<lambda>l. (l, Some (Error ''listener stop'')))\<rparr>"

definition exRouters :: "RouterRef \<rightharpoonup> Router" where
  "exRouters = [7 \<mapsto> \<lparr>registry = Map.empty\<rparr>]"

section \<open>Messages and the listener (listener test and spec)\<close>

text \<open>
  The message type is used by the listener test as a struct with the five fields below;
  its metadata is a list of values of different types. Of the message types only
  FungibleTransfer occurs in the sources; the spec (3) names the other two.
\<close>

datatype TransferType = FungibleTransfer | NonFungibleTransfer | GenericTransfer

datatype MetadataItem = AddressItem Address | BytesItem "nat list"

record Message =
  Source :: ChainId
  Destination :: ChainId
  Type :: TransferType
  DepositNonce :: "32 word"
  Metadata :: "MetadataItem list"

text \<open>\<^verbatim>\<open>x.Bytes()\<close> of math/big for a natural number: its big-endian bytes, none
  for zero.\<close>

fun Bytes :: "nat \<Rightarrow> nat list" where
  "Bytes n = (if n = 0 then [] else Bytes (n div 256) @ [n mod 256])"

declare Bytes.simps [simp del]

text \<open>
  The message TestListener\_depositEvent expects: \<open>bob\<close> is the address of
  \<^verbatim>\<open>BobKp\<close>, the amount is 10, the destination is 1 and \<open>c\<close> is the listener's
  configuration.
\<close>

definition expectedMessage :: "Address \<Rightarrow> Config \<Rightarrow> Message" where
  "expectedMessage bob c =
     \<lparr>Source = 0, Destination = 1, Type = FungibleTransfer, DepositNonce = 1,
      Metadata = [AddressItem bob, BytesItem (Bytes 10), AddressItem (erc20HandlerContract c)]\<rparr>"

text \<open>
  Modelled from the spec: the Listener's methods are not part of the translated
  sources. The definitions of this section follow 4.1 of the spec. A deposit log is a
  decoded deposit event (spec 6: destination chain id, deposit nonce, payload) at a
  block and a log index; its payload is a fungible deposit (recipient and amount) or
  malformed. The task of a listener is its state machine: its status, the scan cursor
  (the next block to scan), the checkpoint last persisted and the messages handed to
  the router so far. A \<open>ChainView\<close> is what the connection shows of the source
  chain: the deposit logs, whether a log query of a block range succeeds within its
  retries, whether the connectivity check passes, and the configured confirmation
  depth and chunk size (\<open>chunkSpan\<close> is the chunk size minus one).
\<close>

datatype DepositPayload = FungibleDeposit Address nat | MalformedDeposit

record DepositLog =
  blockNumber :: nat
  logIndex :: nat
  destination :: ChainId
  depositNonce :: "32 word"
  payload :: DepositPayload

datatype ListenerStatus = Idle | Polling | Stopped | Failed

record ListenerTask =
  task_listener :: Listener
  status :: ListenerStatus
  cursor :: nat
  checkpoint :: "nat option"
  sent :: "Message list"

record ChainView =
  logs :: "DepositLog list"
  fetchOk :: "nat \<Rightarrow> nat \<Rightarrow> bool"
  connected :: "Connection \<Rightarrow> bool"
  confirmations :: nat
  chunkSpan :: nat

datatype HeadObs = Head nat | HeadFailed

text \<open>Modelled from the spec: before Start a listener is idle and has handed no message
  to the router.\<close>

definition NewListenerTask :: "Listener \<Rightarrow> ListenerTask" where
  "NewListenerTask l = \<lparr>task_listener = l, status = Idle, cursor = 0, checkpoint = None, sent = []\<rparr>"

text \<open>
  Modelled from the spec: Start validates that the contract bindings are set (a
  ConfigurationError if not), fails if the initial connectivity check fails, and
  otherwise launches the polling loop with the scan cursor seeded from the start
  height that setupBlockstore left in the configuration.
\<close>

definition Listener_Start_spec :: "ChainView \<Rightarrow> ListenerTask \<Rightarrow> ListenerTask \<times> error option" where
  "Listener_Start_spec v t =
     (if l_bridgeContract (task_listener t) = None \<or> l_erc20HandlerContract (task_listener t) = None
      then (t, Some (ConfigurationError ''contract bindings not set''))
      else if \<not> connected v (l_conn (task_listener t))
      then (t, Some (Error ''connectivity check failed''))
      else (t\<lparr>status := Polling, cursor := nat (startBlock (l_cfg (task_listener t)))\<rparr>, None))"

text \<open>Modelled from the spec: Stop makes the polling loop exit; it is idempotent.\<close>

definition Listener_Stop_spec :: "ListenerTask \<Rightarrow> ListenerTask \<times> error option" where
  "Listener_Stop_spec t = (t\<lparr>status := Stopped\<rparr>, None)"

text \<open>
  Modelled from the spec: a deposit event becomes a message whose source is the
  listener's chain, whose destination and deposit nonce are the event's, and whose
  metadata, for a fungible transfer, is the recipient, the amount and the handler
  address, as in the happy-path scenario (spec 8) and in the listener test. A malformed
  event is skipped.
\<close>

definition toMessage :: "Listener \<Rightarrow> DepositLog \<Rightarrow> Message option" where
  "toMessage l ev =
     (case payload ev of
        FungibleDeposit recipient amount \<Rightarrow>
          Some \<lparr>Source = id_cfg (l_cfg l), Destination = destination ev,
                Type = FungibleTransfer, DepositNonce = depositNonce ev,
                Metadata = [AddressItem recipient, BytesItem (Bytes amount),
                            AddressItem (erc20HandlerContract (l_cfg l))]\<rparr>
      | MalformedDeposit \<Rightarrow> None)"

text \<open>Modelled from the spec: the place of a deposit event on the chain, block first and
  log index second.\<close>

definition position :: "DepositLog \<Rightarrow> nat \<times> nat" where
  "position ev = (blockNumber ev, logIndex ev)"

text \<open>
  Modelled from the spec: the deposit events of the blocks \<open>fromBlock\<close> to
  \<open>toBlock\<close>, both included, in block order and then log-index order.
\<close>

definition FetchLogs :: "ChainView \<Rightarrow> nat \<Rightarrow> nat \<Rightarrow> DepositLog list" where
  "FetchLogs v fromBlock toBlock =
     sort_key position
       (filter (\<lambda>ev. fromBlock \<le> blockNumber ev \<and> blockNumber ev \<le> toBlock) (logs v))"

text \<open>
  Modelled from the spec: the scan of the blocks from the cursor to \<open>target\<close> in
  chunks. Each chunk's events are translated and handed to the router in order, then
  the chunk's last block is persisted as the checkpoint and the cursor advances past
  it. A log query that fails after its retries is fatal to the listener.
\<close>

function scanRange :: "ChainView \<Rightarrow> ListenerTask \<Rightarrow> nat \<Rightarrow> ListenerTask" where
  "scanRange v t target =
     (if status t \<noteq> Polling \<or> target < cursor t then t
      else if \<not> fetchOk v (cursor t) (min (cursor t + chunkSpan v) target)
      then t\<lparr>status := Failed\<rparr>
      else scanRange v
        (t\<lparr>sent := sent t @
              List.map_filter (toMessage (task_listener t))
                (FetchLogs v (cursor t) (min (cursor t + chunkSpan v) target)),
            checkpoint := Some (min (cursor t + chunkSpan v) target),
            cursor := Suc (min (cursor t + chunkSpan v) target)\<rparr>)
        target)"
  by pat_completeness auto
termination
  by (relation "measure (\<lambda>(v, t, target). Suc target - cursor t)") auto

declare scanRange.simps [simp del]

text \<open>
  Modelled from the spec: one cycle of the polling loop, given the chain head the
  connection reports (or its failure after the retries). If the head minus the
  confirmations is below the cursor the loop sleeps; otherwise it scans from the cursor
  to the head minus the confirmations.
\<close>

definition pollCycle :: "ChainView \<Rightarrow> ListenerTask \<Rightarrow> HeadObs \<Rightarrow> ListenerTask" where
  "pollCycle v t obs =
     (if status t \<noteq> Polling then t
      else case obs of
        HeadFailed \<Rightarrow> t\<lparr>status := Failed\<rparr>
      | Head h \<Rightarrow>
          if h < cursor t + confirmations v then t
          else scanRange v t (h - confirmations v))"

text \<open>Modelled from the spec: the polling loop runs one cycle after the other until Stop
  is invoked; \<open>obs\<close> are the heads its cycles observe until then.\<close>

definition pollLoop :: "ChainView \<Rightarrow> ListenerTask \<Rightarrow> HeadObs list \<Rightarrow> ListenerTask" where
  "pollLoop v t obs = foldl (pollCycle v) t obs"

text \<open>Modelled from the spec: the deposit logs of the blocks from \<open>a\<close> up to but not
  including \<open>b\<close>, in block order and then log-index order, as successive chunks
  fetch them.\<close>

definition logsBetween :: "ChainView \<Rightarrow> nat \<Rightarrow> nat \<Rightarrow> DepositLog list" where
  "logsBetween v a b =
     sort_key position (filter (\<lambda>ev. a \<le> blockNumber ev \<and> blockNumber ev < b) (logs v))"

text \<open>A listener with its bindings set, one deposit on the source chain at block 7, and a
  second chain view with two more logs, one of them malformed.\<close>

definition exListener :: Listener where
  "exListener = listener exChain"

definition exDeposit :: DepositLog where
  "exDeposit = \<lparr>blockNumber = 7, logIndex = 0, destination = 1, depositNonce = 1,
     payload = FungibleDeposit ''0xB0B'' 10\<rparr>"

definition exView :: ChainView where
  "exView = \<lparr>logs = [exDeposit], fetchOk = (\<lambda>x y. True),
     connected = (\<lambda>cn. conn_conn cn \<noteq> None), confirmations = 2, chunkSpan = 3\<rparr>"

definition exView2 :: ChainView where
  "exView2 = exView\<lparr>logs :=
     [\<lparr>blockNumber = 9, logIndex = 1, destination = 2, depositNonce = 3,
        payload = MalformedDeposit\<rparr>,
      exDeposit,
      \<lparr>blockNumber = 9, logIndex = 0, destination = 1, depositNonce = 2,
        payload = FungibleDeposit ''0xCAFE'' 300\<rparr>]\<rparr>"

definition exTask :: ListenerTask where
  "exTask = \<lparr>task_listener = exListener, status = Polling, cursor = 5, checkpoint = None,
     sent = []\<rparr>"

section \<open>Properties of setupBlockstore\<close>

lemma Cmp_eq_1: "(Cmp x y = 1) = (y < x)"
  by (simp add: Cmp_def)

text \<open>
  Claim C1. When the blockstore opens, setupBlockstore seeds the scan cursor as follows.
  With freshStart false and a stored checkpoint \<open>latest\<close>, the start block afterwards is
  the maximum of the configured start block and \<open>latest\<close>: the configuration is changed
  (only in its start block, to \<open>latest\<close>) exactly when \<open>latest\<close> is strictly greater
  than the configured start block, and is unchanged otherwise. With freshStart true the
  stored checkpoint is not consulted and the configuration is returned as it was.
\<close>

theorem setupBlockstore_seeds_cursor:
  assumes "NewBlockstore w (blockstorePath c) (id_cfg c) (Address k) = Inr bs"
  shows "(\<not> freshStart c \<and> TryLoadLatestBlock w bs = Inr latest \<longrightarrow>
            setupBlockstore w c (Some k) =
              Returned (c\<lparr>startBlock := max (startBlock c) latest\<rparr>, Some bs, None) \<and>
            (startBlock c < latest \<longrightarrow>
               c\<lparr>startBlock := max (startBlock c) latest\<rparr> = c\<lparr>startBlock := latest\<rparr>) \<and>
            (\<not> startBlock c < latest \<longrightarrow>
               c\<lparr>startBlock := max (startBlock c) latest\<rparr> = c)) \<and>
         (freshStart c \<longrightarrow> setupBlockstore w c (Some k) = Returned (c, Some bs, None))"
  using assms by (auto simp: setupBlockstore_def Cmp_eq_1 max_def)

theorem setupBlockstore_seeds_cursor_witness:
  "setupBlockstore exWorld exConfig (Some exKeypair) =
     Returned (exConfig\<lparr>startBlock := 9\<rparr>,
       Some \<lparr>bs_path = ''blockstore'', bs_chain = 0, bs_relayer = ''0xA11CE''\<rparr>, None) \<and>
   setupBlockstore exWorld (exConfig\<lparr>startBlock := 12\<rparr>) (Some exKeypair) =
     Returned (exConfig\<lparr>startBlock := 12\<rparr>,
       Some \<lparr>bs_path = ''blockstore'', bs_chain = 0, bs_relayer = ''0xA11CE''\<rparr>, None) \<and>
   setupBlockstore exWorld (exConfig\<lparr>freshStart := True\<rparr>) (Some exKeypair) =
     Returned (exConfig\<lparr>freshStart := True\<rparr>,
       Some \<lparr>bs_path = ''blockstore'', bs_chain = 0, bs_relayer = ''0xA11CE''\<rparr>, None)"
  using setupBlockstore_seeds_cursor [of exWorld exConfig exKeypair
      "\<lparr>bs_path = ''blockstore'', bs_chain = 0, bs_relayer = ''0xA11CE''\<rparr>" 9]
    setupBlockstore_seeds_cursor [of exWorld "exConfig\<lparr>startBlock := 12\<rparr>" exKeypair
      "\<lparr>bs_path = ''blockstore'', bs_chain = 0, bs_relayer = ''0xA11CE''\<rparr>" 9]
    setupBlockstore_seeds_cursor [of exWorld "exConfig\<lparr>freshStart := True\<rparr>" exKeypair
      "\<lparr>bs_path = ''blockstore'', bs_chain = 0, bs_relayer = ''0xA11CE''\<rparr>" 9]
  by (simp add: exWorld_def exConfig_def exKeypair_def)

section \<open>Properties of InitializeChain\<close>

lemma logged_simps [simp]: "fst (logged c r) = c # fst r" "snd (logged c r) = snd r"
  by (simp_all add: logged_def)

lemma setupBlockstore_None [simp]: "setupBlockstore w c None = Panicked"
  by (simp add: setupBlockstore_def)

lemma setupBlockstore_contracts:
  "setupBlockstore w c0 kp = Returned (c, bs, e) \<Longrightarrow>
     bridgeContract c = bridgeContract c0 \<and> erc20HandlerContract c = erc20HandlerContract c0 \<and>
     genericHandlerContract c = genericHandlerContract c0"
  by (auto simp: setupBlockstore_def split: option.splits sum.splits if_splits)

lemma InitializeChain_result_shape:
  "(case snd (InitializeChain w chainCfg logger) of
      Returned (ch, e) \<Rightarrow> (ch = None) = (e \<noteq> None) | Panicked \<Rightarrow> True)"
  by (simp add: InitializeChain_def split: sum.split outcome.split option.split prod.split)

lemma InitializeChain_checks_then_bindings:
  "allBefore isBytecodeCheck isBindingCreation (fst (InitializeChain w chainCfg logger))"
  by (simp add: InitializeChain_def isBytecodeCheck_def isBindingCreation_def
      split: sum.split outcome.split option.split prod.split)

lemma InitializeChain_three_checks:
  "list_ex isBindingCreation (fst (InitializeChain w chainCfg logger)) \<longrightarrow>
     length (filter isBytecodeCheck
       (takeWhile (\<lambda>c. \<not> isBindingCreation c) (fst (InitializeChain w chainCfg logger)))) = 3"
  by (simp add: InitializeChain_def isBytecodeCheck_def isBindingCreation_def
      split: sum.split outcome.split option.split prod.split)

lemma InitializeChain_no_code:
  assumes spec: "ensureHasBytecode w = ensureHasBytecode_spec code"
    and parse: "parseChainConfig w chainCfg = Inr c0"
    and keys: "\<forall>s. KeypairFromAddress w (from_cfg c0) EthChain (keystorePath c0)
        (Insecure chainCfg) \<noteq> Inr (Sr25519 s)"
    and nocode: "code (bridgeContract c0) = [] \<or> code (erc20HandlerContract c0) = [] \<or>
       code (genericHandlerContract c0) = []"
  shows "(\<exists>err. snd (InitializeChain w chainCfg logger) = Returned (None, Some err)) \<and>
     list_all (\<lambda>c. \<not> isBindingCreation c) (fst (InitializeChain w chainCfg logger))"
proof (cases "KeypairFromAddress w (from_cfg c0) EthChain (keystorePath c0) (Insecure chainCfg)")
  case (Inl err)
  with parse show ?thesis
    by (simp add: InitializeChain_def isBindingCreation_def)
next
  case (Inr kpI)
  with keys obtain k where k: "kpI = Secp256k1 k"
    by (cases kpI) auto
  show ?thesis
  proof (cases "setupBlockstore w c0 (Some k)")
    case Panicked
    then show ?thesis by (simp add: setupBlockstore_def split: sum.splits if_splits)
  next
    case (Returned r)
    obtain c bs e where r: "r = (c, bs, e)" by (cases r) auto
    from setupBlockstore_contracts [of w c0 "Some k" c bs e] Returned r
    have same: "bridgeContract c = bridgeContract c0"
      "erc20HandlerContract c = erc20HandlerContract c0"
      "genericHandlerContract c = genericHandlerContract c0" by simp_all
    from nocode same have nc: "code (bridgeContract c) = [] \<or>
       code (erc20HandlerContract c) = [] \<or> code (genericHandlerContract c) = []" by simp
    obtain cn ce where cn: "Connect w (NewConnection c (Some k) logger) = (cn, ce)"
      by (cases "Connect w (NewConnection c (Some k) logger)") auto
    from nc show ?thesis
      using parse Inr k Returned r cn spec
      by (auto simp: InitializeChain_def isBindingCreation_def asSecp256k1_def
          ensureHasBytecode_spec_def split: option.split)
  qed
qed

text \<open>
  Claim C2. Let the bytecode check be the one of the spec, over the code \<open>code\<close> that
  the chain holds at each address, let the configuration parse to \<open>c0\<close> and let the
  keystore hand out secp256k1 keys for an Ethereum chain. If the bridge address, the
  ERC20 handler address or the generic handler address of \<open>c0\<close> holds no code, then
  InitializeChain returns an error and no Chain, and it creates no contract binding.
  In every run of InitializeChain no bytecode check comes after the creation of a
  contract binding, and three bytecode checks come before the first creation.
\<close>

theorem InitializeChain_bytecode_checked_first:
  "(ensureHasBytecode w = ensureHasBytecode_spec code \<and>
    parseChainConfig w chainCfg = Inr c0 \<and>
    (\<forall>s. KeypairFromAddress w (from_cfg c0) EthChain (keystorePath c0) (Insecure chainCfg)
        \<noteq> Inr (Sr25519 s)) \<and>
    (code (bridgeContract c0) = [] \<or> code (erc20HandlerContract c0) = [] \<or>
     code (genericHandlerContract c0) = []) \<longrightarrow>
      (\<exists>err. snd (InitializeChain w chainCfg logger) = Returned (None, Some err)) \<and>
      list_all (\<lambda>c. \<not> isBindingCreation c) (fst (InitializeChain w chainCfg logger))) \<and>
   allBefore isBytecodeCheck isBindingCreation (fst (InitializeChain w chainCfg logger)) \<and>
   (list_ex isBindingCreation (fst (InitializeChain w chainCfg logger)) \<longrightarrow>
      length (filter isBytecodeCheck
        (takeWhile (\<lambda>c. \<not> isBindingCreation c) (fst (InitializeChain w chainCfg logger)))) = 3)"
  using InitializeChain_no_code [of w code chainCfg c0 logger]
    InitializeChain_checks_then_bindings [of w chainCfg logger]
    InitializeChain_three_checks [of w chainCfg logger]
  by blast

theorem InitializeChain_bytecode_checked_first_witness:
  "InitializeChain exNoCodeWorld exChainConfig ''log'' =
     ([CallParseChainConfig, CallKeypairFromAddress, CallSetupBlockstore, CallConnect,
       CallEnsureHasBytecode ''0xB1'', CallEnsureHasBytecode ''0xDEAD''],
      Returned (None, Some (ConfigurationError ''no bytecode found at 0xDEAD''))) \<and>
   (\<exists>err. snd (InitializeChain exNoCodeWorld exChainConfig ''log'') = Returned (None, Some err)) \<and>
   list_all (\<lambda>c. \<not> isBindingCreation c) (fst (InitializeChain exNoCodeWorld exChainConfig ''log'')) \<and>
   list_ex isBindingCreation (fst (InitializeChain exWorld exChainConfig ''log'')) \<and>
   length (filter isBytecodeCheck (takeWhile (\<lambda>c. \<not> isBindingCreation c)
     (fst (InitializeChain exWorld exChainConfig ''log'')))) = 3"
proof -
  have run: "InitializeChain exNoCodeWorld exChainConfig ''log'' =
     ([CallParseChainConfig, CallKeypairFromAddress, CallSetupBlockstore, CallConnect,
       CallEnsureHasBytecode ''0xB1'', CallEnsureHasBytecode ''0xDEAD''],
      Returned (None, Some (ConfigurationError ''no bytecode found at 0xDEAD'')))"
    by (simp add: InitializeChain_def exNoCodeWorld_def exWorld_def exConfig_def
        exChainConfig_def setupBlockstore_def asSecp256k1_def Cmp_def NewConnection_def
        exConnect_def ensureHasBytecode_spec_def exCode_def logged_def)
  have ok: "list_ex isBindingCreation (fst (InitializeChain exWorld exChainConfig ''log''))"
    by (simp add: InitializeChain_def exWorld_def exConfig_def
        exChainConfig_def setupBlockstore_def asSecp256k1_def Cmp_def NewConnection_def
        exConnect_def ensureHasBytecode_spec_def exCode_def createBridgeContract_def
        createErc20HandlerContract_def isBindingCreation_def)
  have hyp: "ensureHasBytecode exNoCodeWorld = ensureHasBytecode_spec exCode \<and>
    parseChainConfig exNoCodeWorld exChainConfig =
      Inr (exConfig\<lparr>erc20HandlerContract := ''0xDEAD''\<rparr>) \<and>
    (\<forall>s. KeypairFromAddress exNoCodeWorld
        (from_cfg (exConfig\<lparr>erc20HandlerContract := ''0xDEAD''\<rparr>)) EthChain
        (keystorePath (exConfig\<lparr>erc20HandlerContract := ''0xDEAD''\<rparr>))
        (Insecure exChainConfig) \<noteq> Inr (Sr25519 s)) \<and>
    (exCode (bridgeContract (exConfig\<lparr>erc20HandlerContract := ''0xDEAD''\<rparr>)) = [] \<or>
     exCode (erc20HandlerContract (exConfig\<lparr>erc20HandlerContract := ''0xDEAD''\<rparr>)) = [] \<or>
     exCode (genericHandlerContract (exConfig\<lparr>erc20HandlerContract := ''0xDEAD''\<rparr>)) = [])"
    by (simp add: exNoCodeWorld_def exWorld_def exCode_def)
  from InitializeChain_bytecode_checked_first [of exNoCodeWorld exCode exChainConfig
      "exConfig\<lparr>erc20HandlerContract := ''0xDEAD''\<rparr>" "''log''"] hyp
    InitializeChain_bytecode_checked_first [of exWorld exCode exChainConfig exConfig "''log''"] ok
    run
  show ?thesis by blast
qed

text \<open>
  Claim C5. Whenever InitializeChain returns, the Chain is \<^verbatim>\<open>nil\<close> exactly when the
  error is not. A Chain is returned only when the configuration parsed, the keypair
  loaded, the blockstore was set up, the connection connected, the three bytecode
  checks passed and both contract bindings were created. Each failing step, after the
  steps before it succeeded, makes InitializeChain return \<^verbatim>\<open>nil\<close> with the error of
  that step; when no step fails the Chain of the last line is returned with no error.
\<close>

theorem InitializeChain_nil_chain_with_error:
  "(\<forall>ch e. snd (InitializeChain w chainCfg logger) = Returned (ch, e) \<longrightarrow>
      (ch = None) = (e \<noteq> None)) \<and>
   (\<forall>ch e. snd (InitializeChain w chainCfg logger) = Returned (Some ch, e) \<longrightarrow>
      e = None \<and>
      (\<exists>c0 k c bs cn b h.
         parseChainConfig w chainCfg = Inr c0 \<and>
         KeypairFromAddress w (from_cfg c0) EthChain (keystorePath c0) (Insecure chainCfg)
           = Inr (Secp256k1 k) \<and>
         setupBlockstore w c0 (Some k) = Returned (c, bs, None) \<and>
         Connect w (NewConnection c (Some k) logger) = (cn, None) \<and>
         ensureHasBytecode w cn (bridgeContract c) = None \<and>
         ensureHasBytecode w cn (erc20HandlerContract c) = None \<and>
         ensureHasBytecode w cn (genericHandlerContract c) = None \<and>
         createBridgeContract w (bridgeContract c) cn = Inr b \<and>
         createErc20HandlerContract w (erc20HandlerContract c) cn = Inr h \<and>
         ch = \<lparr>cfg = chainCfg, conn = cn,
                listener = SetContracts (NewListener cn c logger bs) (Some b) (Some h),
                writer = SetContract (NewWriter cn c logger) (Some b)\<rparr>)) \<and>
   (parseChainConfig w chainCfg = Inl err \<longrightarrow>
      snd (InitializeChain w chainCfg logger) = Returned (None, Some err)) \<and>
   (parseChainConfig w chainCfg = Inr c0 \<longrightarrow>
     (KeypairFromAddress w (from_cfg c0) EthChain (keystorePath c0) (Insecure chainCfg) = Inl err \<longrightarrow>
        snd (InitializeChain w chainCfg logger) = Returned (None, Some err)) \<and>
     (KeypairFromAddress w (from_cfg c0) EthChain (keystorePath c0) (Insecure chainCfg) = Inr kpI \<longrightarrow>
       (setupBlockstore w c0 (asSecp256k1 kpI) = Returned (c, bs, Some err) \<longrightarrow>
          snd (InitializeChain w chainCfg logger) = Returned (None, Some err)) \<and>
       (setupBlockstore w c0 (asSecp256k1 kpI) = Returned (c, bs, None) \<longrightarrow>
         (Connect w (NewConnection c (asSecp256k1 kpI) logger) = (cn, Some err) \<longrightarrow>
            snd (InitializeChain w chainCfg logger) = Returned (None, Some err)) \<and>
         (Connect w (NewConnection c (asSecp256k1 kpI) logger) = (cn, None) \<longrightarrow>
           (ensureHasBytecode w cn (bridgeContract c) = Some err \<longrightarrow>
              snd (InitializeChain w chainCfg logger) = Returned (None, Some err)) \<and>
           (ensureHasBytecode w cn (bridgeContract c) = None \<longrightarrow>
             (ensureHasBytecode w cn (erc20HandlerContract c) = Some err \<longrightarrow>
                snd (InitializeChain w chainCfg logger) = Returned (None, Some err)) \<and>
             (ensureHasBytecode w cn (erc20HandlerContract c) = None \<longrightarrow>
               (ensureHasBytecode w cn (genericHandlerContract c) = Some err \<longrightarrow>
                  snd (InitializeChain w chainCfg logger) = Returned (None, Some err)) \<and>
               (ensureHasBytecode w cn (genericHandlerContract c) = None \<longrightarrow>
                 (createBridgeContract w (bridgeContract c) cn = Inl err \<longrightarrow>
                    snd (InitializeChain w chainCfg logger) = Returned (None, Some err)) \<and>
                 (createBridgeContract w (bridgeContract c) cn = Inr b \<longrightarrow>
                   (createErc20HandlerContract w (erc20HandlerContract c) cn = Inl err \<longrightarrow>
                      snd (InitializeChain w chainCfg logger) = Returned (None, Some err)) \<and>
                   (createErc20HandlerContract w (erc20HandlerContract c) cn = Inr h \<longrightarrow>
                      snd (InitializeChain w chainCfg logger) =
                        Returned (Some \<lparr>cfg = chainCfg, conn = cn,
                          listener = SetContracts (NewListener cn c logger bs) (Some b) (Some h),
                          writer = SetContract (NewWriter cn c logger) (Some b)\<rparr>, None))))))))))"
proof (intro conjI allI impI)
  fix ch e
  assume "snd (InitializeChain w chainCfg logger) = Returned (ch, e)"
  with InitializeChain_result_shape [of w chainCfg logger]
  show "(ch = None) = (e \<noteq> None)" by simp
next
  fix ch e
  assume r: "snd (InitializeChain w chainCfg logger) = Returned (Some ch, e)"
  with InitializeChain_result_shape [of w chainCfg logger]
  show "e = None" by simp
  from r show "\<exists>c0 k c bs cn b h.
         parseChainConfig w chainCfg = Inr c0 \<and>
         KeypairFromAddress w (from_cfg c0) EthChain (keystorePath c0) (Insecure chainCfg)
           = Inr (Secp256k1 k) \<and>
         setupBlockstore w c0 (Some k) = Returned (c, bs, None) \<and>
         Connect w (NewConnection c (Some k) logger) = (cn, None) \<and>
         ensureHasBytecode w cn (bridgeContract c) = None \<and>
         ensureHasBytecode w cn (erc20HandlerContract c) = None \<and>
         ensureHasBytecode w cn (genericHandlerContract c) = None \<and>
         createBridgeContract w (bridgeContract c) cn = Inr b \<and>
         createErc20HandlerContract w (erc20HandlerContract c) cn = Inr h \<and>
         ch = \<lparr>cfg = chainCfg, conn = cn,
                listener = SetContracts (NewListener cn c logger bs) (Some b) (Some h),
                writer = SetContract (NewWriter cn c logger) (Some b)\<rparr>"
    by (auto simp: InitializeChain_def asSecp256k1_def
        split: sum.splits outcome.splits option.splits prod.splits CryptoKeypair.splits)
qed (simp_all add: InitializeChain_def)

theorem InitializeChain_nil_chain_with_error_witness:
  "snd (InitializeChain exNoCodeWorld exChainConfig ''log'') =
     Returned (None, Some (ConfigurationError ''no bytecode found at 0xDEAD'')) \<and>
   (\<exists>ch. snd (InitializeChain exWorld exChainConfig ''log'') = Returned (Some ch, None))"
proof -
  let ?p = "exConfig\<lparr>erc20HandlerContract := ''0xDEAD''\<rparr>"
  let ?c = "?p\<lparr>startBlock := 9\<rparr>"
  let ?bs = "\<lparr>bs_path = ''blockstore'', bs_chain = 0, bs_relayer = ''0xA11CE''\<rparr>"
  let ?k = "Secp256k1 \<lparr>Address = ''0xA11CE''\<rparr>"
  let ?cn = "\<lparr>conn_cfg = ?c, conn_kp = Some \<lparr>Address = ''0xA11CE''\<rparr>,
      conn_log = ''log'', conn_conn = Some 1\<rparr>"
  let ?err = "ConfigurationError ''no bytecode found at 0xDEAD''"
  have p: "parseChainConfig exNoCodeWorld exChainConfig = Inr ?p"
    by (simp add: exNoCodeWorld_def exWorld_def)
  have k: "KeypairFromAddress exNoCodeWorld (from_cfg ?p) EthChain (keystorePath ?p)
      (Insecure exChainConfig) = Inr ?k"
    by (simp add: exNoCodeWorld_def exWorld_def exConfig_def)
  have s: "setupBlockstore exNoCodeWorld ?p (asSecp256k1 ?k) = Returned (?c, Some ?bs, None)"
    by (simp add: exNoCodeWorld_def exWorld_def exConfig_def setupBlockstore_def
        asSecp256k1_def Cmp_def)
  have cn: "Connect exNoCodeWorld (NewConnection ?c (asSecp256k1 ?k) ''log'') = (?cn, None)"
    by (simp add: exNoCodeWorld_def exWorld_def NewConnection_def asSecp256k1_def exConnect_def)
  have e1: "ensureHasBytecode exNoCodeWorld ?cn (bridgeContract ?c) = None"
    by (simp add: exNoCodeWorld_def exWorld_def exConfig_def ensureHasBytecode_spec_def exCode_def)
  have e2: "ensureHasBytecode exNoCodeWorld ?cn (erc20HandlerContract ?c) = Some ?err"
    by (simp add: exNoCodeWorld_def exWorld_def exConfig_def ensureHasBytecode_spec_def exCode_def)
  have a: "snd (InitializeChain exNoCodeWorld exChainConfig ''log'') = Returned (None, Some ?err)"
    using InitializeChain_nil_chain_with_error [of exNoCodeWorld exChainConfig "''log''"
        ?err ?p ?k ?c "Some ?bs" ?cn] p k s cn e1 e2
    by blast
  let ?d = "exConfig\<lparr>startBlock := 9\<rparr>"
  let ?dn = "\<lparr>conn_cfg = ?d, conn_kp = Some \<lparr>Address = ''0xA11CE''\<rparr>,
      conn_log = ''log'', conn_conn = Some 1\<rparr>"
  have p': "parseChainConfig exWorld exChainConfig = Inr exConfig"
    by (simp add: exWorld_def exChainConfig_def exConfig_def)
  have k': "KeypairFromAddress exWorld (from_cfg exConfig) EthChain (keystorePath exConfig)
      (Insecure exChainConfig) = Inr ?k"
    by (simp add: exWorld_def exConfig_def)
  have s': "setupBlockstore exWorld exConfig (asSecp256k1 ?k) = Returned (?d, Some ?bs, None)"
    by (simp add: exWorld_def exConfig_def setupBlockstore_def asSecp256k1_def Cmp_def)
  have cn': "Connect exWorld (NewConnection ?d (asSecp256k1 ?k) ''log'') = (?dn, None)"
    by (simp add: exWorld_def NewConnection_def asSecp256k1_def exConnect_def)
  have f1: "ensureHasBytecode exWorld ?dn (bridgeContract ?d) = None"
    by (simp add: exWorld_def exConfig_def ensureHasBytecode_spec_def exCode_def)
  have f2: "ensureHasBytecode exWorld ?dn (erc20HandlerContract ?d) = None"
    by (simp add: exWorld_def exConfig_def ensureHasBytecode_spec_def exCode_def)
  have f3: "ensureHasBytecode exWorld ?dn (genericHandlerContract ?d) = None"
    by (simp add: exWorld_def exConfig_def ensureHasBytecode_spec_def exCode_def)
  have b1: "createBridgeContract exWorld (bridgeContract ?d) ?dn = Inr (Bridge ''0xB1'' (Some 1))"
    by (simp add: exWorld_def exConfig_def createBridgeContract_def)
  have b2: "createErc20HandlerContract exWorld (erc20HandlerContract ?d) ?dn =
      Inr (ERC20Handler ''0xE2'' (Some 1))"
    by (simp add: exWorld_def exConfig_def createErc20HandlerContract_def)
  have c: "\<exists>ch. snd (InitializeChain exWorld exChainConfig ''log'') = Returned (Some ch, None)"
    using InitializeChain_nil_chain_with_error [of exWorld exChainConfig "''log''"
        "Error ''none''" exConfig ?k ?d "Some ?bs" ?dn
        "Bridge ''0xB1'' (Some 1)" "ERC20Handler ''0xE2'' (Some 1)"]
      p' k' s' cn' f1 f2 f3 b1 b2
    by blast
  from a c show ?thesis by blast
qed

section \<open>Properties of the Chain lifecycle\<close>

text \<open>
  Claim C9. Chain.Start starts the Listener first. If Listener.Start returns an error,
  Chain.Start returns that error and the Writer is never started. Otherwise the Writer
  is started next and its result is the result of Chain.Start. Chain.Start returns no
  error exactly when both Start calls return none.
\<close>

theorem Chain_Start_listener_first:
  "(Listener_Start t (listener c) = (l', Some err) \<longrightarrow>
      Chain_Start t c = ([CallListenerStart], c\<lparr>listener := l'\<rparr>, Some err)) \<and>
   (Listener_Start t (listener c) = (l', None) \<and> Writer_Start t (writer c) = (w', e) \<longrightarrow>
      fst (Chain_Start t c) =
        CallListenerStart # CallWriterStart #
          (if e = None then [CallLogDebug ''Successfully started chain''] else []) \<and>
      snd (Chain_Start t c) = (c\<lparr>listener := l', writer := w'\<rparr>, e)) \<and>
   ((snd (snd (Chain_Start t c)) = None) =
      (snd (Listener_Start t (listener c)) = None \<and> snd (Writer_Start t (writer c)) = None)) \<and>
   (snd (Listener_Start t (listener c)) \<noteq> None \<longrightarrow>
      CallWriterStart \<notin> set (fst (Chain_Start t c))) \<and>
   allBefore (\<lambda>x. x = CallListenerStart) (\<lambda>x. x = CallWriterStart) (fst (Chain_Start t c))"
  by (auto simp: Chain_Start_def split: prod.splits option.splits)

theorem Chain_Start_listener_first_witness:
  "Chain_Start exFailingTasks exChain =
     ([CallListenerStart], exChain, Some (Error ''listener start'')) \<and>
   Chain_Start exTasks exChain =
     ([CallListenerStart, CallWriterStart, CallLogDebug ''Successfully started chain''],
      exChain, None)"
proof -
  have a: "Chain_Start exFailingTasks exChain =
     ([CallListenerStart], exChain\<lparr>listener := listener exChain\<rparr>, Some (Error ''listener start''))"
    using Chain_Start_listener_first [of exFailingTasks exChain "listener exChain"
        "Error ''listener start''"]
    by (simp add: exFailingTasks_def exTasks_def)
  have b: "fst (Chain_Start exTasks exChain) =
      [CallListenerStart, CallWriterStart, CallLogDebug ''Successfully started chain''] \<and>
     snd (Chain_Start exTasks exChain) =
      (exChain\<lparr>listener := listener exChain, writer := writer exChain\<rparr>, None)"
    using Chain_Start_listener_first [of exTasks exChain "listener exChain" _
        "writer exChain" None]
    by (simp add: exTasks_def)
  from a b show ?thesis by (simp add: prod_eq_iff)
qed

text \<open>
  Claim C3. When Listener.Stop and Writer.Stop both return no error, Chain.Stop stops
  the Listener, then the Writer, then closes the Connection, and returns \<^verbatim>\<open>nil\<close>.
  Chain.Stop returns no error exactly in that case. In every run the Connection is
  closed only after both tasks were stopped: a run that closes the Connection made
  exactly the calls Listener.Stop, Writer.Stop, Connection.Close, in this order. When
  Listener.Stop returns an error, Chain.Stop returns it at once.
\<close>

theorem Chain_Stop_closes_after_both:
  "(Listener_Stop t (listener c) = (l', None) \<and> Writer_Stop t (writer c) = (w', None) \<longrightarrow>
      Chain_Stop t c =
        ([CallListenerStop, CallWriterStop, CallConnectionClose],
         c\<lparr>listener := l', writer := w', conn := Connection_Close t (conn c)\<rparr>, None)) \<and>
   ((snd (snd (Chain_Stop t c)) = None) =
      (snd (Listener_Stop t (listener c)) = None \<and> snd (Writer_Stop t (writer c)) = None)) \<and>
   (CallConnectionClose \<in> set (fst (Chain_Stop t c)) \<longrightarrow>
      fst (Chain_Stop t c) = [CallListenerStop, CallWriterStop, CallConnectionClose] \<and>
      snd (Listener_Stop t (listener c)) = None \<and> snd (Writer_Stop t (writer c)) = None) \<and>
   (Listener_Stop t (listener c) = (l', Some err) \<longrightarrow>
      Chain_Stop t c = ([CallListenerStop], c\<lparr>listener := l'\<rparr>, Some err))"
  by (auto simp: Chain_Stop_def split: prod.splits option.splits)


theorem Chain_Stop_closes_after_both_witness:
  "Chain_Stop exTasks exChain =
     ([CallListenerStop, CallWriterStop, CallConnectionClose],
      exChain\<lparr>conn := exConnection\<lparr>conn_conn := None\<rparr>\<rparr>, None) \<and>
   Chain_Stop exFailingTasks exChain =
     ([CallListenerStop], exChain, Some (Error ''listener stop''))"
proof -
  have h: "Listener_Stop exTasks (listener exChain) = (listener exChain, None) \<and>
      Writer_Stop exTasks (writer exChain) = (writer exChain, None)"
    by (simp add: exTasks_def)
  from Chain_Stop_closes_after_both [of exTasks exChain "listener exChain" "writer exChain"] h
  have a: "Chain_Stop exTasks exChain =
        ([CallListenerStop, CallWriterStop, CallConnectionClose],
         exChain\<lparr>listener := listener exChain, writer := writer exChain,
           conn := Connection_Close exTasks (conn exChain)\<rparr>, None)"
    by blast
  have e: "exChain\<lparr>listener := listener exChain, writer := writer exChain,
           conn := Connection_Close exTasks (conn exChain)\<rparr> =
         exChain\<lparr>conn := exConnection\<lparr>conn_conn := None\<rparr>\<rparr>"
    by (simp add: exTasks_def exChain_def)
  have g: "Listener_Stop exFailingTasks (listener exChain) =
      (listener exChain, Some (Error ''listener stop''))"
    by (simp add: exFailingTasks_def exTasks_def)
  from Chain_Stop_closes_after_both [of exFailingTasks exChain "listener exChain" _
        "Error ''listener stop''"] g
  have b: "Chain_Stop exFailingTasks exChain =
     ([CallListenerStop], exChain\<lparr>listener := listener exChain\<rparr>, Some (Error ''listener stop''))"
    by blast
  have f: "exChain\<lparr>listener := listener exChain\<rparr> = exChain"
    by simp
  from a b e f show ?thesis by simp
qed

text \<open>
  Claim C8. Chain.SetRouter calls the Listen operation of the router it is given once,
  with the chain's own ChainId and the chain's own Writer, stores what Listen returns
  as the new state of that router, leaves every other router as it was, and gives the
  chain's Listener the reference to the same router; nothing else of the chain
  changes. With the Listen of the spec and a ChainId that is not yet registered, the
  registry of the router afterwards maps the chain's ChainId to the chain's Writer and
  every other ChainId as before.
\<close>

theorem Chain_SetRouter_registers_own_writer:
  "(h r = Some ro \<and> Router_Listen t ro (Id (cfg c)) (writer c) = Returned ro' \<longrightarrow>
      Chain_SetRouter t c r h =
        Returned (c\<lparr>listener := (listener c)\<lparr>l_router := Some r\<rparr>\<rparr>, h(r \<mapsto> ro'))) \<and>
   (h r = Some ro \<and> Router_Listen t = Listen_spec \<and> registry ro (Id (cfg c)) = None \<longrightarrow>
      (\<exists>c' h' ro'.
         Chain_SetRouter t c r h = Returned (c', h') \<and> h' r = Some ro' \<and>
         registry ro' (Id (cfg c)) = Some (writer c) \<and>
         (\<forall>i. i \<noteq> Id (cfg c) \<longrightarrow> registry ro' i = registry ro i) \<and>
         (\<forall>r'. r' \<noteq> r \<longrightarrow> h' r' = h r') \<and>
         l_router (listener c') = Some r \<and>
         cfg c' = cfg c \<and> writer c' = writer c \<and> conn c' = conn c))"
proof (intro conjI impI)
  assume "h r = Some ro \<and> Router_Listen t ro (Id (cfg c)) (writer c) = Returned ro'"
  then show "Chain_SetRouter t c r h =
      Returned (c\<lparr>listener := (listener c)\<lparr>l_router := Some r\<rparr>\<rparr>, h(r \<mapsto> ro'))"
    by (simp add: Chain_SetRouter_def Listener_SetRouter_def)
next
  assume a: "h r = Some ro \<and> Router_Listen t = Listen_spec \<and> registry ro (Id (cfg c)) = None"
  let ?ro = "ro\<lparr>registry := (registry ro)(Id (cfg c) \<mapsto> writer c)\<rparr>"
  let ?c = "c\<lparr>listener := (listener c)\<lparr>l_router := Some r\<rparr>\<rparr>"
  from a have run: "Chain_SetRouter t c r h = Returned (?c, h(r \<mapsto> ?ro))"
    by (simp add: Chain_SetRouter_def Listener_SetRouter_def Listen_spec_def)
  have "(h(r \<mapsto> ?ro)) r = Some ?ro \<and>
      registry ?ro (Id (cfg c)) = Some (writer c) \<and>
      (\<forall>i. i \<noteq> Id (cfg c) \<longrightarrow> registry ?ro i = registry ro i) \<and>
      (\<forall>r'. r' \<noteq> r \<longrightarrow> (h(r \<mapsto> ?ro)) r' = h r') \<and>
      l_router (listener ?c) = Some r \<and>
      cfg ?c = cfg c \<and> writer ?c = writer c \<and> conn ?c = conn c"
    by simp
  with run show "\<exists>c' h' ro'.
         Chain_SetRouter t c r h = Returned (c', h') \<and> h' r = Some ro' \<and>
         registry ro' (Id (cfg c)) = Some (writer c) \<and>
         (\<forall>i. i \<noteq> Id (cfg c) \<longrightarrow> registry ro' i = registry ro i) \<and>
         (\<forall>r'. r' \<noteq> r \<longrightarrow> h' r' = h r') \<and>
         l_router (listener c') = Some r \<and>
         cfg c' = cfg c \<and> writer c' = writer c \<and> conn c' = conn c"
    by blast
qed

theorem Chain_SetRouter_registers_own_writer_witness:
  "(\<exists>c' h' ro'. Chain_SetRouter exTasks exChain 7 exRouters = Returned (c', h') \<and>
      h' 7 = Some ro' \<and> registry ro' 0 = Some (writer exChain) \<and>
      l_router (listener c') = Some 7)"
proof -
  have "exRouters 7 = Some \<lparr>registry = Map.empty\<rparr> \<and> Router_Listen exTasks = Listen_spec \<and>
      registry \<lparr>registry = Map.empty\<rparr> (Id (cfg exChain)) = None"
    by (simp add: exRouters_def exTasks_def)
  with Chain_SetRouter_registers_own_writer [of exRouters 7 "\<lparr>registry = Map.empty\<rparr>"
      exTasks exChain]
  have "\<exists>c' h' ro'. Chain_SetRouter exTasks exChain 7 exRouters = Returned (c', h') \<and>
      h' 7 = Some ro' \<and> registry ro' (Id (cfg exChain)) = Some (writer exChain) \<and>
      l_router (listener c') = Some 7"
    by blast
  then show ?thesis by (simp add: exChain_def exChainConfig_def)
qed

section \<open>Properties of the listener\<close>

lemma FetchLogs_logsBetween: "FetchLogs v a b = logsBetween v a (Suc b)"
  by (simp add: FetchLogs_def logsBetween_def less_Suc_eq_le)

lemma logsBetween_empty [simp]: "logsBetween v a a = []"
  by (simp add: logsBetween_def)

lemma sorted_split_by_block:
  "sorted (map position xs) \<Longrightarrow>
     filter (\<lambda>e. blockNumber e < b) xs @ filter (\<lambda>e. \<not> blockNumber e < b) xs = xs"
proof (induction xs)
  case Nil
  then show ?case by simp
next
  case (Cons x xs)
  show ?case
  proof (cases "blockNumber x < b")
    case True
    with Cons show ?thesis by simp
  next
    case False
    from Cons.prems have "\<forall>y\<in>set xs. position x \<le> position y" by simp
    then have "\<forall>y\<in>set xs. \<not> blockNumber y < b"
      using False by (auto simp: position_def less_eq_prod_def)
    then have "filter (\<lambda>e. blockNumber e < b) xs = []" "filter (\<lambda>e. \<not> blockNumber e < b) xs = xs"
      by (simp_all add: filter_empty_conv filter_id_conv)
    with False show ?thesis by simp
  qed
qed

lemma logsBetween_append:
  assumes "a \<le> b" "b \<le> c"
  shows "logsBetween v a b @ logsBetween v b c = logsBetween v a c"
proof -
  have s: "sorted (map position (logsBetween v a c))"
    by (simp add: logsBetween_def)
  have l: "filter (\<lambda>e. blockNumber e < b) (logsBetween v a c) = logsBetween v a b"
    unfolding logsBetween_def filter_sort filter_filter
    by (rule arg_cong [where f = "sort_key position"], rule filter_cong [OF refl])
      (use assms in auto)
  have r: "filter (\<lambda>e. \<not> blockNumber e < b) (logsBetween v a c) = logsBetween v b c"
    unfolding logsBetween_def filter_sort filter_filter
    by (rule arg_cong [where f = "sort_key position"], rule filter_cong [OF refl])
      (use assms in auto)
  from sorted_split_by_block [OF s, of b] l r show ?thesis by simp
qed

lemma map_filter_append: "List.map_filter f (xs @ ys) = List.map_filter f xs @ List.map_filter f ys"
  by (simp add: List.map_filter_def)

lemma scanRange_sent:
  "cursor t \<le> cursor (scanRange v t target) \<and>
   task_listener (scanRange v t target) = task_listener t \<and>
   sent (scanRange v t target) =
     sent t @ List.map_filter (toMessage (task_listener t))
       (logsBetween v (cursor t) (cursor (scanRange v t target)))"
proof (induction v t target rule: scanRange.induct)
  case (1 v t target)
  let ?last = "min (cursor t + chunkSpan v) target"
  show ?case
  proof (cases "status t \<noteq> Polling \<or> target < cursor t")
    case True
    then show ?thesis by (simp add: scanRange.simps [of v t target] List.map_filter_def)
  next
    case False
    note run = this
    show ?thesis
    proof (cases "fetchOk v (cursor t) ?last")
      case False
      with run show ?thesis by (simp add: scanRange.simps [of v t target] List.map_filter_def)
    next
      case True
      let ?t = "t\<lparr>sent := sent t @ List.map_filter (toMessage (task_listener t))
                (FetchLogs v (cursor t) ?last),
            checkpoint := Some ?last, cursor := Suc ?last\<rparr>"
      from run True have eq: "scanRange v t target = scanRange v ?t target"
        by (simp add: scanRange.simps [of v t target])
      from run True "1.IH" have ih:
        "cursor ?t \<le> cursor (scanRange v ?t target) \<and>
         task_listener (scanRange v ?t target) = task_listener ?t \<and>
         sent (scanRange v ?t target) =
           sent ?t @ List.map_filter (toMessage (task_listener ?t))
             (logsBetween v (cursor ?t) (cursor (scanRange v ?t target)))"
        by simp
      from run have le: "cursor t \<le> Suc ?last" by (simp add: min_def)
      from ih have le2: "Suc ?last \<le> cursor (scanRange v ?t target)" by simp
      from logsBetween_append [OF le le2, of v]
      have "logsBetween v (cursor t) (cursor (scanRange v ?t target)) =
          FetchLogs v (cursor t) ?last @ logsBetween v (Suc ?last) (cursor (scanRange v ?t target))"
        by (simp add: FetchLogs_logsBetween)
      with ih le le2 show ?thesis
        unfolding eq by (simp add: map_filter_append)
    qed
  qed
qed

lemma pollCycle_sent:
  "cursor t \<le> cursor (pollCycle v t ob) \<and>
   task_listener (pollCycle v t ob) = task_listener t \<and>
   sent (pollCycle v t ob) =
     sent t @ List.map_filter (toMessage (task_listener t))
       (logsBetween v (cursor t) (cursor (pollCycle v t ob)))"
  using scanRange_sent [of t v]
  by (cases ob) (simp_all add: pollCycle_def List.map_filter_def)

lemma pollLoop_sent:
  "cursor t \<le> cursor (pollLoop v t obs) \<and>
   task_listener (pollLoop v t obs) = task_listener t \<and>
   sent (pollLoop v t obs) =
     sent t @ List.map_filter (toMessage (task_listener t))
       (logsBetween v (cursor t) (cursor (pollLoop v t obs)))"
proof (induction obs arbitrary: t)
  case Nil
  then show ?case by (simp add: pollLoop_def List.map_filter_def)
next
  case (Cons ob obs)
  let ?t = "pollCycle v t ob"
  have eq: "pollLoop v t (ob # obs) = pollLoop v ?t obs"
    by (simp add: pollLoop_def)
  note c = pollCycle_sent [of t v ob]
  note ih = Cons.IH [of ?t]
  from c have le: "cursor t \<le> cursor ?t" by simp
  from ih have le2: "cursor ?t \<le> cursor (pollLoop v ?t obs)" by simp
  from logsBetween_append [OF le le2, of v]
  have split: "logsBetween v (cursor t) (cursor (pollLoop v ?t obs)) =
      logsBetween v (cursor t) (cursor ?t) @ logsBetween v (cursor ?t) (cursor (pollLoop v ?t obs))"
    by simp
  from c ih le le2 show ?case
    unfolding eq by (simp add: split map_filter_append)
qed

lemma exTask_started:
  "Listener_Start_spec exView (NewListenerTask exListener) = (exTask, None)"
  "Listener_Start_spec exView2 (NewListenerTask exListener) = (exTask, None)"
  by (simp_all add: Listener_Start_spec_def NewListenerTask_def exTask_def exListener_def
      exChain_def SetContracts_def NewListener_def exView_def exView2_def exConnection_def
      exConfig_def)

lemma Listener_Start_spec_ok:
  assumes "Listener_Start_spec v t0 = (t, None)"
  shows "status t = Polling \<and> cursor t = nat (startBlock (l_cfg (task_listener t0))) \<and>
     sent t = sent t0 \<and> task_listener t = task_listener t0 \<and>
     l_bridgeContract (task_listener t0) \<noteq> None \<and>
     l_erc20HandlerContract (task_listener t0) \<noteq> None \<and>
     connected v (l_conn (task_listener t0))"
  using assms by (auto simp: Listener_Start_spec_def split: if_splits)

lemma nonces_of_messages:
  "map DepositNonce (List.map_filter (toMessage l) xs) =
     map depositNonce (filter (\<lambda>e. payload e \<noteq> MalformedDeposit) xs)"
proof (induction xs)
  case Nil
  then show ?case by (simp add: List.map_filter_def)
next
  case (Cons x xs)
  then show ?case
    by (cases "payload x") (simp_all add: List.map_filter_def toMessage_def)
qed

lemma nonces_increase_along_sorted_logs:
  assumes num: "\<forall>e1\<in>set L. \<forall>e2\<in>set L.
      e1 \<noteq> e2 \<and> position e1 \<le> position e2 \<longrightarrow> depositNonce e1 < depositNonce e2"
  shows "sorted (map position xs) \<Longrightarrow> distinct xs \<Longrightarrow> set xs \<subseteq> set L \<Longrightarrow>
     sorted_wrt (\<lambda>a b. depositNonce a < depositNonce b) xs"
proof (induction xs)
  case Nil
  then show ?case by simp
next
  case (Cons x xs)
  have "\<forall>y\<in>set xs. depositNonce x < depositNonce y"
  proof
    fix y assume y: "y \<in> set xs"
    with Cons.prems have "x \<noteq> y" "position x \<le> position y" "x \<in> set L" "y \<in> set L"
      by auto
    with num show "depositNonce x < depositNonce y" by blast
  qed
  with Cons show ?case by simp
qed

lemma logsBetween_nonces_sorted:
  assumes "distinct (logs v)"
    and "\<forall>e1\<in>set (logs v). \<forall>e2\<in>set (logs v).
      e1 \<noteq> e2 \<and> position e1 \<le> position e2 \<longrightarrow> depositNonce e1 < depositNonce e2"
  shows "sorted_wrt (<) (map DepositNonce (List.map_filter (toMessage l) (logsBetween v a b)))"
proof -
  have "sorted (map position (logsBetween v a b))" "distinct (logsBetween v a b)"
    "set (logsBetween v a b) \<subseteq> set (logs v)"
    using assms(1) by (auto simp: logsBetween_def)
  with nonces_increase_along_sorted_logs [OF assms(2)]
  have "sorted_wrt (\<lambda>a b. depositNonce a < depositNonce b) (logsBetween v a b)"
    by blast
  then have "sorted_wrt (\<lambda>a b. depositNonce a < depositNonce b)
      (filter (\<lambda>e. payload e \<noteq> MalformedDeposit) (logsBetween v a b))"
    by (rule sorted_wrt_filter)
  then show ?thesis
    by (simp add: nonces_of_messages sorted_wrt_map)
qed

lemma distinct_source_nonce:
  assumes "sorted_wrt (<) (map DepositNonce ms)"
  shows "distinct (map (\<lambda>m. (Source m, DepositNonce m)) ms)"
proof -
  from assms have "distinct (map DepositNonce ms)"
    using strict_sorted_iff by blast
  then have "distinct ms" "inj_on DepositNonce (set ms)"
    by (simp_all add: distinct_map)
  then show ?thesis
    by (auto simp: distinct_map inj_on_def)
qed

text \<open>
  Claim C7. Take a source chain whose deposit logs are numbered by the bridge contract
  in the order of the chain: of two different logs, the one at the earlier block and
  log index has the smaller deposit nonce. A listener that is created, started and
  then polls through any sequence of observed heads has handed to the router a
  sequence of messages whose deposit nonces strictly increase and whose pairs of
  source and deposit nonce are pairwise distinct.
\<close>

theorem Listener_run_nonces_strictly_increase:
  assumes "Listener_Start_spec v (NewListenerTask l) = (t, None)"
    and "distinct (logs v)"
    and "\<forall>e1\<in>set (logs v). \<forall>e2\<in>set (logs v).
      e1 \<noteq> e2 \<and> position e1 \<le> position e2 \<longrightarrow> depositNonce e1 < depositNonce e2"
  shows "sorted_wrt (<) (map DepositNonce (sent (pollLoop v t obs))) \<and>
     distinct (map (\<lambda>m. (Source m, DepositNonce m)) (sent (pollLoop v t obs)))"
proof -
  from Listener_Start_spec_ok [OF assms(1)] have "sent t = []"
    by (simp add: NewListenerTask_def)
  with pollLoop_sent [of t v obs]
  have "sent (pollLoop v t obs) =
      List.map_filter (toMessage (task_listener t))
        (logsBetween v (cursor t) (cursor (pollLoop v t obs)))"
    by simp
  with logsBetween_nonces_sorted [OF assms(2,3)]
  have s: "sorted_wrt (<) (map DepositNonce (sent (pollLoop v t obs)))"
    by simp
  from s distinct_source_nonce [OF s] show ?thesis by simp
qed

theorem Listener_run_nonces_strictly_increase_witness:
  "sorted_wrt (<) (map DepositNonce (sent (pollLoop exView2 exTask [Head 8, Head 20]))) \<and>
   distinct (map (\<lambda>m. (Source m, DepositNonce m)) (sent (pollLoop exView2 exTask [Head 8, Head 20])))"
proof -
  have d: "distinct (logs exView2)"
    by (simp add: exView2_def exView_def exDeposit_def)
  have n: "\<forall>e1\<in>set (logs exView2). \<forall>e2\<in>set (logs exView2).
      e1 \<noteq> e2 \<and> position e1 \<le> position e2 \<longrightarrow> depositNonce e1 < depositNonce e2"
    by (simp add: exView2_def exView_def exDeposit_def position_def)
  from Listener_run_nonces_strictly_increase [OF exTask_started(2) d n, of "[Head 8, Head 20]"]
  show ?thesis .
qed

lemma scanRange_cursor:
  "status t = Polling \<longrightarrow> (\<forall>x y. fetchOk v x y) \<longrightarrow> cursor t \<le> target \<longrightarrow>
     cursor (scanRange v t target) = Suc target \<and> status (scanRange v t target) = Polling"
proof (induction v t target rule: scanRange.induct)
  case (1 v t target)
  let ?last = "min (cursor t + chunkSpan v) target"
  let ?t = "t\<lparr>sent := sent t @ List.map_filter (toMessage (task_listener t))
                (FetchLogs v (cursor t) ?last),
            checkpoint := Some ?last, cursor := Suc ?last\<rparr>"
  show ?case
  proof (intro impI)
    assume p: "status t = Polling" and ok: "\<forall>x y. fetchOk v x y" and le: "cursor t \<le> target"
    then have eq: "scanRange v t target = scanRange v ?t target"
      by (simp add: scanRange.simps [of v t target])
    show "cursor (scanRange v t target) = Suc target \<and> status (scanRange v t target) = Polling"
    proof (cases "Suc ?last \<le> target")
      case True
      with p ok le "1.IH" show ?thesis unfolding eq by simp
    next
      case False
      with le have l: "?last = target" by (simp add: min_def split: if_splits)
      from False have "scanRange v ?t target = ?t"
        by (subst scanRange.simps) simp
      with p l show ?thesis unfolding eq by simp
    qed
  qed
qed

lemma pollCycle_cursor:
  assumes "status t = Polling" "\<forall>x y. fetchOk v x y"
  shows "status (pollCycle v t (Head h)) = Polling \<and>
     (n < cursor (pollCycle v t (Head h))) = (n < cursor t \<or> n + confirmations v \<le> h)"
proof (cases "h < cursor t + confirmations v")
  case True
  with assms show ?thesis by (auto simp: pollCycle_def)
next
  case False
  then have "cursor t \<le> h - confirmations v" by simp
  with scanRange_cursor [of t v "h - confirmations v"] assms False show ?thesis
    by (auto simp: pollCycle_def)
qed

lemma pollLoop_cursor:
  "status t = Polling \<Longrightarrow> \<forall>x y. fetchOk v x y \<Longrightarrow> HeadFailed \<notin> set obs \<Longrightarrow>
     status (pollLoop v t obs) = Polling \<and>
     (n < cursor (pollLoop v t obs)) =
       (n < cursor t \<or> (\<exists>h. Head h \<in> set obs \<and> n + confirmations v \<le> h))"
proof (induction obs arbitrary: t)
  case Nil
  then show ?case by (simp add: pollLoop_def)
next
  case (Cons ob obs)
  from Cons.prems obtain h where h: "ob = Head h" by (cases ob) auto
  have eq: "pollLoop v t (ob # obs) = pollLoop v (pollCycle v t (Head h)) obs"
    by (simp add: pollLoop_def h)
  note c = pollCycle_cursor [OF Cons.prems(1,2), of h n]
  from Cons.prems c have ih: "status (pollLoop v (pollCycle v t (Head h)) obs) = Polling \<and>
     (n < cursor (pollLoop v (pollCycle v t (Head h)) obs)) =
       (n < cursor (pollCycle v t (Head h)) \<or>
        (\<exists>h. Head h \<in> set obs \<and> n + confirmations v \<le> h))"
    by (intro Cons.IH) simp_all
  from c ih show ?case unfolding eq by (auto simp: h)
qed

text \<open>
  Claim C4. Let the source chain hold one deposit event, at a block not before the
  listener's start block: ERC20 deposit to chain 1 with deposit nonce 1, amount 10 and
  recipient \<open>bob\<close>. Let the listener be the one of chain 0; it is created and started,
  and its queries of the chain succeed. As soon as one of the heads the polling loop
  observes is the event's block plus the confirmations or later, the router has been
  handed exactly one message, the message the test expects; before that, none.
\<close>

theorem deposit_event_delivered_once:
  assumes "Listener_Start_spec v (NewListenerTask l) = (t, None)"
    and "id_cfg (l_cfg l) = 0"
    and "logs v = [\<lparr>blockNumber = b, logIndex = i, destination = 1, depositNonce = 1,
          payload = FungibleDeposit bob 10\<rparr>]"
    and "nat (startBlock (l_cfg l)) \<le> b"
    and "\<forall>x y. fetchOk v x y"
    and "HeadFailed \<notin> set obs"
  shows "sent (pollLoop v t obs) =
     (if \<exists>h. Head h \<in> set obs \<and> b + confirmations v \<le> h
      then [expectedMessage bob (l_cfg l)] else [])"
proof -
  note st = Listener_Start_spec_ok [OF assms(1)]
  from st have t: "sent t = []" "task_listener t = l" "status t = Polling"
      "cursor t = nat (startBlock (l_cfg l))"
    by (simp_all add: NewListenerTask_def)
  let ?c = "cursor (pollLoop v t obs)"
  from pollLoop_sent [of t v obs] t
  have s: "sent (pollLoop v t obs) = List.map_filter (toMessage l) (logsBetween v (cursor t) ?c)"
    by simp
  from pollLoop_cursor [OF t(3) assms(5,6), of b] t(4) assms(4)
  have c: "(b < ?c) = (\<exists>h. Head h \<in> set obs \<and> b + confirmations v \<le> h)"
    by simp
  define ev where "ev = \<lparr>blockNumber = b, logIndex = i, destination = 1, depositNonce = 1,
          payload = FungibleDeposit bob 10\<rparr>"
  have m: "toMessage l ev = Some (expectedMessage bob (l_cfg l))"
    by (simp add: ev_def toMessage_def expectedMessage_def assms(2))
  have lg: "logs v = [ev]" "blockNumber ev = b"
    by (simp_all add: ev_def assms(3))
  from t(4) assms(4) have "List.map_filter (toMessage l) (logsBetween v (cursor t) ?c) =
      (if b < ?c then [expectedMessage bob (l_cfg l)] else [])"
    by (simp add: logsBetween_def lg List.map_filter_def m)
  with s c show ?thesis by simp
qed

theorem deposit_event_delivered_once_witness:
  "sent (pollLoop exView exTask [Head 6, Head 9, Head 12]) = [expectedMessage ''0xB0B'' exConfig] \<and>
   sent (pollLoop exView exTask [Head 6, Head 8]) = []"
proof -
  have i: "id_cfg (l_cfg exListener) = 0"
    by (simp add: exListener_def exChain_def SetContracts_def NewListener_def exConfig_def)
  have c: "l_cfg exListener = exConfig"
    by (simp add: exListener_def exChain_def SetContracts_def NewListener_def)
  have lg: "logs exView = [\<lparr>blockNumber = 7, logIndex = 0, destination = 1, depositNonce = 1,
          payload = FungibleDeposit ''0xB0B'' 10\<rparr>]"
    by (simp add: exView_def exDeposit_def)
  have s: "nat (startBlock (l_cfg exListener)) \<le> 7"
    by (simp add: c exConfig_def)
  have f: "\<forall>x y. fetchOk exView x y"
    by (simp add: exView_def)
  have k: "confirmations exView = 2"
    by (simp add: exView_def)
  have h1: "HeadFailed \<notin> set [Head 6, Head 9, Head 12]" by simp
  have h2: "HeadFailed \<notin> set [Head 6, Head 8]" by simp
  have e1: "\<exists>h. Head h \<in> set [Head 6, Head 9, Head 12] \<and> 7 + confirmations exView \<le> h"
    by (rule exI [of _ 9]) (simp add: k)
  have e2: "\<not> (\<exists>h. Head h \<in> set [Head 6, Head 8] \<and> 7 + confirmations exView \<le> h)"
    by (auto simp: k)
  from deposit_event_delivered_once [OF exTask_started(1) i lg s f h1] e1
  have a: "sent (pollLoop exView exTask [Head 6, Head 9, Head 12]) =
      [expectedMessage ''0xB0B'' (l_cfg exListener)]"
    by (simp only: if_True)
  from deposit_event_delivered_once [OF exTask_started(1) i lg s f h2] e2
  have b: "sent (pollLoop exView exTask [Head 6, Head 8]) = []"
    by (simp only: if_False)
  from a b c show ?thesis by simp
qed

end
